theory Spec2Isabelle
  imports Complex_Main
begin

section \<open>Numeric containers\<close>

text \<open>
  The node computes with Python floats and numpy arrays of fixed shape. Floats are
  idealised as \<^typ>\<open>real\<close>; an array of fixed shape is a tuple, a Python list of
  unknown length is a list.
\<close>

type_synonym vec2 = "real \<times> real"
type_synonym vec3 = "real \<times> real \<times> real"
type_synonym vec4 = "real \<times> real \<times> real \<times> real"
type_synonym mat42 = "vec2 \<times> vec2 \<times> vec2 \<times> vec2"
type_synonym mat43 = "vec3 \<times> vec3 \<times> vec3 \<times> vec3"
type_synonym mat44 = "vec4 \<times> vec4 \<times> vec4 \<times> vec4"
type_synonym mat24 = "vec4 \<times> vec4"
type_synonym rostime = nat

datatype error = IndexError | ValueError | UnboundLocalError

definition dot2 :: "vec2 \<Rightarrow> vec2 \<Rightarrow> real" where
  "dot2 a b = (case a of (a1, a2) \<Rightarrow> case b of (b1, b2) \<Rightarrow> a1 * b1 + a2 * b2)"

definition dot3 :: "vec3 \<Rightarrow> vec3 \<Rightarrow> real" where
  "dot3 a b = (case a of (a1, a2, a3) \<Rightarrow> case b of (b1, b2, b3) \<Rightarrow>
     a1 * b1 + a2 * b2 + a3 * b3)"

definition dot4 :: "vec4 \<Rightarrow> vec4 \<Rightarrow> real" where
  "dot4 a b = (case a of (a1, a2, a3, a4) \<Rightarrow> case b of (b1, b2, b3, b4) \<Rightarrow>
     a1 * b1 + a2 * b2 + a3 * b3 + a4 * b4)"

text \<open>\<open>np.dot\<close> of a 4x2, 4x3 or 4x4 matrix (a tuple of rows) with a column vector.\<close>

definition np_dot42 :: "mat42 \<Rightarrow> vec2 \<Rightarrow> vec4" where
  "np_dot42 M v = (case M of (r1, r2, r3, r4) \<Rightarrow> (dot2 r1 v, dot2 r2 v, dot2 r3 v, dot2 r4 v))"

definition np_dot43 :: "mat43 \<Rightarrow> vec3 \<Rightarrow> vec4" where
  "np_dot43 M v = (case M of (r1, r2, r3, r4) \<Rightarrow> (dot3 r1 v, dot3 r2 v, dot3 r3 v, dot3 r4 v))"

definition np_dot44 :: "mat44 \<Rightarrow> vec4 \<Rightarrow> vec4" where
  "np_dot44 M v = (case M of (r1, r2, r3, r4) \<Rightarrow> (dot4 r1 v, dot4 r2 v, dot4 r3 v, dot4 r4 v))"

definition vec4_add :: "vec4 \<Rightarrow> vec4 \<Rightarrow> vec4" where
  "vec4_add a b = (case a of (a1, a2, a3, a4) \<Rightarrow> case b of (b1, b2, b3, b4) \<Rightarrow>
     (a1 + b1, a2 + b2, a3 + b3, a4 + b4))"

definition vec4_sub :: "vec4 \<Rightarrow> vec4 \<Rightarrow> vec4" where
  "vec4_sub a b = (case a of (a1, a2, a3, a4) \<Rightarrow> case b of (b1, b2, b3, b4) \<Rightarrow>
     (a1 - b1, a2 - b2, a3 - b3, a4 - b4))"

definition vec4_list :: "vec4 \<Rightarrow> real list" where
  "vec4_list v = (case v of (a, b, c, d) \<Rightarrow> [a, b, c, d])"

text \<open>\<open>np.array(xs).reshape(4,1)\<close>: a list of 4 numbers becomes a column; any other
  length raises \<open>ValueError\<close>.\<close>

definition reshape41 :: "real list \<Rightarrow> error + vec4" where
  "reshape41 xs = (case xs of [a, b, c, d] \<Rightarrow> Inr (a, b, c, d) | _ \<Rightarrow> Inl ValueError)"

section \<open>Quaternions and dual quaternions\<close>

text \<open>\<open>np.quaternion(w, x, y, z)\<close> of the numpy-quaternion package: Hamilton product,
  conjugate and the array of components.\<close>

datatype quaternion = Quaternion (qw: real) (qx: real) (qy: real) (qz: real)

definition components :: "quaternion \<Rightarrow> real list" where
  "components q = [qw q, qx q, qy q, qz q]"

definition qconj :: "quaternion \<Rightarrow> quaternion" where
  "qconj q = Quaternion (qw q) (- qx q) (- qy q) (- qz q)"

definition qmul :: "quaternion \<Rightarrow> quaternion \<Rightarrow> quaternion" where
  "qmul a b = Quaternion
     (qw a * qw b - qx a * qx b - qy a * qy b - qz a * qz b)
     (qw a * qx b + qx a * qw b + qy a * qz b - qz a * qy b)
     (qw a * qy b - qx a * qz b + qy a * qw b + qz a * qx b)
     (qw a * qz b + qx a * qy b - qy a * qx b + qz a * qw b)"

definition qadd :: "quaternion \<Rightarrow> quaternion \<Rightarrow> quaternion" where
  "qadd a b = Quaternion (qw a + qw b) (qx a + qx b) (qy a + qy b) (qz a + qz b)"

text \<open>\<open>DQ(q0, ..., q7)\<close> of dqrobotics: primary part \<open>q0..q3\<close>, dual part \<open>q4..q7\<close>;
  \<open>(p1 + \<epsilon> d1) (p2 + \<epsilon> d2) = p1 p2 + \<epsilon> (p1 d2 + d1 p2)\<close>.\<close>

datatype dq = DQ real real real real real real real real

definition vec8 :: "dq \<Rightarrow> real list" where
  "vec8 h = (case h of DQ a b c d e f g k \<Rightarrow> [a, b, c, d, e, f, g, k])"

definition dq_P :: "dq \<Rightarrow> quaternion" where
  "dq_P h = (case h of DQ a b c d e f g k \<Rightarrow> Quaternion a b c d)"

definition dq_D :: "dq \<Rightarrow> quaternion" where
  "dq_D h = (case h of DQ a b c d e f g k \<Rightarrow> Quaternion e f g k)"

definition dq_of :: "quaternion \<Rightarrow> quaternion \<Rightarrow> dq" where
  "dq_of p d = DQ (qw p) (qx p) (qy p) (qz p) (qw d) (qx d) (qy d) (qz d)"

definition dq_conj :: "dq \<Rightarrow> dq" where
  "dq_conj h = dq_of (qconj (dq_P h)) (qconj (dq_D h))"

definition dq_mul :: "dq \<Rightarrow> dq \<Rightarrow> dq" where
  "dq_mul a b = dq_of (qmul (dq_P a) (dq_P b))
                      (qadd (qmul (dq_P a) (dq_D b)) (qmul (dq_D a) (dq_P b)))"

section \<open>Helpers of rosi_common, taken as parameters\<close>

text \<open>
  \<open>chassis_control.py\<close> imports these functions from \<open>rosi_common.dq_tools\<close> and
  \<open>rosi_common.rosi_tools\<close>. The node is modelled for any implementation of them.
\<close>

record dq_tools =
  quat2rpy :: "quaternion \<Rightarrow> vec3"
  rpy2quat :: "vec3 \<Rightarrow> vec4"
  trAndOri2dq :: "vec3 \<Rightarrow> quaternion \<Rightarrow> string \<Rightarrow> dq"
  dqElementwiseMul :: "dq \<Rightarrow> dq \<Rightarrow> dq"
  dq2trAndQuatArray :: "dq \<Rightarrow> vec3 \<times> quaternion"
  dqExtractTransV3 :: "dq \<Rightarrow> vec3"
  dq2rpy :: "dq \<Rightarrow> vec3"
  correctFlippersJointSignal :: "real list \<Rightarrow> real list"

section \<open>The node\<close>

text \<open>
  The fields of \<open>NodeClass\<close>. A ROS message is kept as the part the node reads:
  \<open>msg_grndDist.vec\<close> (a list of 3-vectors), \<open>msg_jointState.position\<close> and
  \<open>msg_imu.orientation\<close>. \<open>active\<close> is \<open>ns.getNodeStatus()['active']\<close>.
  \<open>e_a_R_dq\<close> is the local variable of \<open>nodeMain\<close> of that name: it lives across
  the iterations of the loop and is unbound until an iteration assigns it.
\<close>

record 'p node =
  node_name :: string
  drive_side :: 'p
  active :: bool
  msg_grndDist :: "vec3 list option"
  msg_jointState :: "real list option"
  msg_imu :: "quaternion option"
  ctrlType_curr :: int
  flpJointPosSp_l :: "real list"
  kmu_l :: "real list"
  x_sp_ori_q :: quaternion
  x_sp_dq :: dq
  kp_o_q :: quaternion
  kp_a_dq :: dq
  J_ori_dagger :: mat42
  J_ori :: mat24
  J_ori_nsproj :: mat44
  J_art_dagger :: mat43
  e_a_R_dq :: "dq option"

definition chassisCtrlType :: "(string \<times> int) list" where
  "chassisCtrlType = [(''orientation'', 1), (''orientationNullSpace'', 2), (''articulation'', 3)]"

definition ctrlType :: "string \<Rightarrow> int" where
  "ctrlType k = the (map_of chassisCtrlType k)"

definition quat_of_vec4 :: "vec4 \<Rightarrow> quaternion" where
  "quat_of_vec4 v = (case v of (a, b, c, d) \<Rightarrow> Quaternion a b c d)"

definition convertSetPoints2DqFormat :: "dq_tools \<Rightarrow> vec3 \<Rightarrow> vec3 \<Rightarrow> quaternion \<times> dq" where
  "convertSetPoints2DqFormat T tr rpy =
     (let ori_q = quat_of_vec4 (rpy2quat T rpy);
          pose_dq = trAndOri2dq T tr ori_q ''trfirst''
      in (ori_q, pose_dq))"

subsection \<open>Service callbacks\<close>

definition srvcllbck_setCtrlType :: "'p node \<Rightarrow> int \<Rightarrow> 'p node \<times> int" where
  "srvcllbck_setCtrlType s v =
     (if v \<ge> 1 \<and> v \<le> int (length chassisCtrlType)
      then (let s' = s\<lparr>ctrlType_curr := v\<rparr> in (s', ctrlType_curr s'))
      else (s, - 1))"

definition srvcllbck_getCtrlType :: "'p node \<Rightarrow> int" where
  "srvcllbck_getCtrlType s = ctrlType_curr s"

definition srvcllbck_setPoseSetPoint :: "dq_tools \<Rightarrow> 'p node \<Rightarrow> vec3 \<Rightarrow> vec3 \<Rightarrow> 'p node \<times> bool" where
  "srvcllbck_setPoseSetPoint T s translation orientation =
     (case convertSetPoints2DqFormat T translation orientation of
        (ori_q, pose_dq) \<Rightarrow> (s\<lparr>x_sp_ori_q := ori_q, x_sp_dq := pose_dq\<rparr>, True))"

definition srvcllbck_setPoseCtrlGain :: "'p node \<Rightarrow> vec3 \<Rightarrow> vec3 \<Rightarrow> 'p node \<times> bool" where
  "srvcllbck_setPoseCtrlGain s kp_ori kp_tr =
     (case kp_ori of (o0, o1, o2) \<Rightarrow> case kp_tr of (t0, t1, t2) \<Rightarrow>
        (s\<lparr>kp_o_q := Quaternion 1 o0 o1 o2, kp_a_dq := DQ 1 o0 o1 o2 1 t0 t1 t2\<rparr>, True))"

definition srvcllbck_getPoseSetPoint :: "dq_tools \<Rightarrow> 'p node \<Rightarrow> vec3 \<times> vec3" where
  "srvcllbck_getPoseSetPoint T s = (dqExtractTransV3 T (x_sp_dq s), dq2rpy T (x_sp_dq s))"

definition srvcllbck_getPoseCtrlGain :: "'p node \<Rightarrow> real list \<times> real list" where
  "srvcllbck_getPoseCtrlGain s =
     (let aux = vec8 (kp_a_dq s) in (take 3 (drop 1 aux), drop 5 aux))"

subsection \<open>Topic callbacks\<close>

definition cllbck_imu :: "'p node \<Rightarrow> quaternion \<Rightarrow> 'p node" where
  "cllbck_imu s msg = s\<lparr>msg_imu := Some msg\<rparr>"

definition cllbck_grndDist :: "'p node \<Rightarrow> vec3 list \<Rightarrow> 'p node" where
  "cllbck_grndDist s msg = s\<lparr>msg_grndDist := Some msg\<rparr>"

definition cllbck_jointState :: "'p node \<Rightarrow> real list \<Rightarrow> 'p node" where
  "cllbck_jointState s msg = s\<lparr>msg_jointState := Some msg\<rparr>"

text \<open>Modelled from the spec: \<open>nodeStatus.defActiveServiceReq\<close> of
  \<open>rosi_common.node_status_tools\<close> is not among the sources; the runtime control
  surface lists "set/get active (on/off) status", so the request stores the flag.\<close>

definition srvcllbck_setActive :: "'p node \<Rightarrow> bool \<Rightarrow> 'p node \<times> bool" where
  "srvcllbck_setActive s b = (s\<lparr>active := b\<rparr>, True)"

subsection \<open>Published messages\<close>

record DualQuaternionStamped =
  stamp :: rostime
  frame_id :: string
  wp :: real
  xp :: real
  yp :: real
  zp :: real
  wd :: real
  xd :: real
  yd :: real
  zd :: real

definition dq2DualQuaternionStampedMsg :: "dq \<Rightarrow> rostime \<Rightarrow> string \<Rightarrow> DualQuaternionStamped" where
  "dq2DualQuaternionStampedMsg h ros_time fid =
     (case h of DQ a0 a1 a2 a3 a4 a5 a6 a7 \<Rightarrow>
        \<lparr>stamp = ros_time, frame_id = fid, wp = a0, xp = a1, yp = a2, zp = a3,
         wd = a4, xd = a5, yd = a6, zd = a7\<rparr>)"

text \<open>One constructor per publisher of the node; \<open>CmdVelFlipperSpace\<close> carries the
  \<open>Vector3ArrayStamped\<close> command (stamp, frame id and \<open>vec\<close>).\<close>

datatype pub =
    CmdVelFlipperSpace rostime string "vec3 list"
  | DqPoseCurr DualQuaternionStamped
  | DqSetPoint DualQuaternionStamped
  | DqError DualQuaternionStamped
  | DqSP DualQuaternionStamped

text \<open>The CommandOutputs among some publications: of each command message, the
  vertical velocities (the z components of \<open>vec\<close>), in order.\<close>

fun commandOutputs :: "pub list \<Rightarrow> real list list" where
  "commandOutputs [] = []"
| "commandOutputs (CmdVelFlipperSpace t n vec # ps) = map (\<lambda>v. snd (snd v)) vec # commandOutputs ps"
| "commandOutputs (_ # ps) = commandOutputs ps"

subsection \<open>One iteration of the loop of \<open>nodeMain\<close>\<close>

text \<open>
  The control signal of the mode branches. The result is \<open>u_Pi_v\<close>, the error
  quaternion \<open>e_o_R_q\<close> when an orientation mode computed one, and the local
  \<open>e_a_R_dq\<close> as the branches leave it.
\<close>

definition ctrl_modes ::
  "dq_tools \<Rightarrow> 'p node \<Rightarrow> real list \<Rightarrow> quaternion \<Rightarrow> dq \<Rightarrow>
   error + (vec4 \<times> quaternion option \<times> dq option)" where
  "ctrl_modes T s position x_o_R_q x_a_R_dq =
     (if ctrlType_curr s = ctrlType ''orientation'' \<or>
         ctrlType_curr s = ctrlType ''orientationNullSpace''
      then
        (let e_o_R_q = qmul (qconj (x_sp_ori_q s)) x_o_R_q;
             u_o_R_q = map2 (*) (components (qconj (kp_o_q s))) (components e_o_R_q);
             u_o_R_v = (u_o_R_q ! 1, u_o_R_q ! 2);
             u_Pi_v = np_dot42 (J_ori_dagger s) u_o_R_v
         in if ctrlType_curr s = ctrlType ''orientationNullSpace''
            then
              (let flpJPos_l = correctFlippersJointSignal T (drop 4 position)
               in case reshape41
                     (map (\<lambda>(jcurr, jsp, ki). ki * (jsp - jcurr))
                        (zip flpJPos_l (zip (flpJointPosSp_l s) (kmu_l s)))) of
                    Inl err \<Rightarrow> Inl err
                  | Inr mu \<Rightarrow>
                      (let aux_u = np_dot44 (J_ori_nsproj s) mu
                       in Inr (vec4_add u_Pi_v aux_u, Some e_o_R_q, e_a_R_dq s)))
            else Inr (u_Pi_v, Some e_o_R_q, e_a_R_dq s))
      else if ctrlType_curr s = ctrlType ''articulation''
      then
        (let e_a = dq_mul (dq_conj (x_sp_dq s)) x_a_R_dq;
             u_a_R_dq = dqElementwiseMul T (dq_conj (kp_a_dq s)) e_a
         in case dq2trAndQuatArray T u_a_R_dq of
              (u_a_R_tr, u_a_R_q) \<Rightarrow>
                (let u_a_R = (snd (snd u_a_R_tr), components u_a_R_q ! 1, components u_a_R_q ! 2)
                 in Inr (np_dot43 (J_art_dagger s) u_a_R, None, Some e_a)))
      else Inr ((0, 0, 0, 0), None, e_a_R_dq s))"

text \<open>The state computed in every iteration: the orientation without the yaw component
  and the articulation pose.\<close>

definition deyaw :: "dq_tools \<Rightarrow> quaternion \<Rightarrow> quaternion" where
  "deyaw T q_imu =
     (let rpy = quat2rpy T q_imu;
          q_yawcorr = quat_of_vec4 (rpy2quat T (0, 0, snd (snd rpy)))
      in qmul q_imu q_yawcorr)"

definition articulation_pose :: "dq_tools \<Rightarrow> vec3 \<Rightarrow> quaternion \<Rightarrow> dq" where
  "articulation_pose T v0 x_o_R_q = trAndOri2dq T (0, 0, snd (snd v0)) x_o_R_q ''trfirst''"

text \<open>
  The iteration proper: the activity and readiness gates, the de-yawed state, the mode
  branches, then the five publications in the order of the source. It returns what was
  published and either the node after the iteration or the exception that ended it:
  \<open>IndexError\<close> from \<open>msg_grndDist.vec[0]\<close>, \<open>ValueError\<close> from \<open>reshape(4,1)\<close>,
  \<open>UnboundLocalError\<close> from reading \<open>e_a_R_dq\<close> before any assignment.
  \<open>param\<close> is what \<open>rospy.get_param(drive_side_param_path)\<close> returns in this iteration.
\<close>

definition nodeMain_iter ::
  "dq_tools \<Rightarrow> rostime \<Rightarrow> 'p \<Rightarrow> 'p node \<Rightarrow> pub list \<times> (error + 'p node)" where
  "nodeMain_iter T ros_time param s =
     (if active s then
        (case (msg_grndDist s, msg_jointState s, msg_imu s) of
           (Some vec, Some position, Some q_imu) \<Rightarrow>
             (let x_o_R_q = deyaw T q_imu
              in case vec of
                   [] \<Rightarrow> ([], Inl IndexError)
                 | v0 # _ \<Rightarrow>
                     (let x_a_R_dq = articulation_pose T v0 x_o_R_q
                      in case ctrl_modes T s position x_o_R_q x_a_R_dq of
                           Inl err \<Rightarrow> ([], Inl err)
                         | Inr (u_Pi_v, e_o, e_a) \<Rightarrow>
                             (let s1 = s\<lparr>drive_side := param\<rparr>;
                                  out3 =
                                    [CmdVelFlipperSpace ros_time (node_name s)
                                       (map (\<lambda>u_Pi. (0, 0, u_Pi)) (vec4_list u_Pi_v)),
                                     DqPoseCurr (dq2DualQuaternionStampedMsg x_a_R_dq ros_time (node_name s)),
                                     DqSetPoint (dq2DualQuaternionStampedMsg (x_sp_dq s) ros_time (node_name s))];
                                  e_a' =
                                    (case e_o of
                                       Some e_o_R_q \<Rightarrow>
                                         Some (DQ (components e_o_R_q ! 0) (components e_o_R_q ! 1)
                                                  (components e_o_R_q ! 2) (components e_o_R_q ! 3) 0 0 0 0)
                                     | None \<Rightarrow> e_a)
                              in case e_a' of
                                   None \<Rightarrow> (out3, Inl UnboundLocalError)
                                 | Some e \<Rightarrow>
                                     (out3 @
                                      [DqError (dq2DualQuaternionStampedMsg e ros_time (node_name s)),
                                       DqSP (dq2DualQuaternionStampedMsg (kp_a_dq s) ros_time (node_name s))],
                                      Inr (s1\<lparr>e_a_R_dq := Some e\<rparr>)))))
         | _ \<Rightarrow> ([], Inr s))
      else ([], Inr s))"

subsection \<open>The node as a transition system\<close>

text \<open>
  What can happen to the node: a message on one of the three topics, a service request,
  or one iteration of the loop (with the ROS time and the value of the drive-side
  parameter read in it).
\<close>

datatype 'p event =
    Imu quaternion
  | GrndDist "vec3 list"
  | JointState "real list"
  | SetActive bool
  | SetPoseSetPoint vec3 vec3
  | SetPoseCtrlGain vec3 vec3
  | SetCtrlType int
  | GetCtrlType
  | GetPoseSetPoint
  | GetPoseCtrlGain
  | Tick rostime 'p

datatype emitted =
    Published pub
  | BoolResponse bool
  | IntResponse int
  | PoseResponse vec3 vec3
  | GainResponse "real list" "real list"

fun step :: "dq_tools \<Rightarrow> 'p event \<Rightarrow> 'p node \<Rightarrow> emitted list \<times> (error + 'p node)" where
  "step T (Imu m) s = ([], Inr (cllbck_imu s m))"
| "step T (GrndDist m) s = ([], Inr (cllbck_grndDist s m))"
| "step T (JointState m) s = ([], Inr (cllbck_jointState s m))"
| "step T (SetActive b) s =
     (case srvcllbck_setActive s b of (s', r) \<Rightarrow> ([BoolResponse r], Inr s'))"
| "step T (SetPoseSetPoint tr rpy) s =
     (case srvcllbck_setPoseSetPoint T s tr rpy of (s', r) \<Rightarrow> ([BoolResponse r], Inr s'))"
| "step T (SetPoseCtrlGain ko kt) s =
     (case srvcllbck_setPoseCtrlGain s ko kt of (s', r) \<Rightarrow> ([BoolResponse r], Inr s'))"
| "step T (SetCtrlType v) s =
     (case srvcllbck_setCtrlType s v of (s', r) \<Rightarrow> ([IntResponse r], Inr s'))"
| "step T GetCtrlType s = ([IntResponse (srvcllbck_getCtrlType s)], Inr s)"
| "step T GetPoseSetPoint s =
     (case srvcllbck_getPoseSetPoint T s of (tr, rpy) \<Rightarrow> ([PoseResponse tr rpy], Inr s))"
| "step T GetPoseCtrlGain s =
     (case srvcllbck_getPoseCtrlGain s of (ko, kt) \<Rightarrow> ([GainResponse ko kt], Inr s))"
| "step T (Tick ros_time param) s =
     (case nodeMain_iter T ros_time param s of (ps, r) \<Rightarrow> (map Published ps, r))"

text \<open>A run stops at the first exception: it leaves \<open>nodeMain\<close> and ends the process.\<close>

fun run :: "dq_tools \<Rightarrow> 'p event list \<Rightarrow> 'p node \<Rightarrow> emitted list \<times> (error + 'p node)" where
  "run T [] s = ([], Inr s)"
| "run T (e # es) s =
     (case step T e s of
        (out, Inl err) \<Rightarrow> (out, Inl err)
      | (out, Inr s') \<Rightarrow> (case run T es s' of (out', r) \<Rightarrow> (out @ out', r)))"

subsection \<open>The constructor\<close>

text \<open>
  \<open>__init__\<close>. The mounting geometry and \<open>compute_J_ori_dagger\<close>,
  \<open>compute_J_art_dagger\<close> are not among the sources and \<open>np.linalg.pinv\<close> is numpy's:
  the two Jacobians and the pseudo-inverse are parameters, as are the value of the
  drive-side parameter and the activity flag a fresh \<open>nodeStatus\<close> has.
\<close>

definition eye4 :: mat44 where
  "eye4 = ((1, 0, 0, 0), (0, 1, 0, 0), (0, 0, 1, 0), (0, 0, 0, 1))"

definition mat44_sub :: "mat44 \<Rightarrow> mat44 \<Rightarrow> mat44" where
  "mat44_sub A B = (case A of (a1, a2, a3, a4) \<Rightarrow> case B of (b1, b2, b3, b4) \<Rightarrow>
     (vec4_sub a1 b1, vec4_sub a2 b2, vec4_sub a3 b3, vec4_sub a4 b4))"

text \<open>\<open>np.dot\<close> of a 4x2 with a 2x4 matrix, and of two 4x4 matrices.\<close>

definition row_times24 :: "vec2 \<Rightarrow> mat24 \<Rightarrow> vec4" where
  "row_times24 r X = (case r of (a, b) \<Rightarrow> case X of ((x1, x2, x3, x4), (y1, y2, y3, y4)) \<Rightarrow>
     (a * x1 + b * y1, a * x2 + b * y2, a * x3 + b * y3, a * x4 + b * y4))"

definition np_dot42_24 :: "mat42 \<Rightarrow> mat24 \<Rightarrow> mat44" where
  "np_dot42_24 A X = (case A of (r1, r2, r3, r4) \<Rightarrow>
     (row_times24 r1 X, row_times24 r2 X, row_times24 r3 X, row_times24 r4 X))"

definition row_times44 :: "vec4 \<Rightarrow> mat44 \<Rightarrow> vec4" where
  "row_times44 r B = (case r of (a, b, c, d) \<Rightarrow>
     case B of ((x1, x2, x3, x4), (y1, y2, y3, y4), (z1, z2, z3, z4), (w1, w2, w3, w4)) \<Rightarrow>
       (a * x1 + b * y1 + c * z1 + d * w1, a * x2 + b * y2 + c * z2 + d * w2,
        a * x3 + b * y3 + c * z3 + d * w3, a * x4 + b * y4 + c * z4 + d * w4))"

definition np_dot44_44 :: "mat44 \<Rightarrow> mat44 \<Rightarrow> mat44" where
  "np_dot44_44 A B = (case A of (r1, r2, r3, r4) \<Rightarrow>
     (row_times44 r1 B, row_times44 r2 B, row_times44 r3 B, row_times44 r4 B))"

definition row_times42 :: "vec4 \<Rightarrow> mat42 \<Rightarrow> vec2" where
  "row_times42 r A = (case r of (a, b, c, d) \<Rightarrow>
     case A of ((x1, x2), (y1, y2), (z1, z2), (w1, w2)) \<Rightarrow>
       (a * x1 + b * y1 + c * z1 + d * w1, a * x2 + b * y2 + c * z2 + d * w2))"

definition np_dot44_42 :: "mat44 \<Rightarrow> mat42 \<Rightarrow> mat42" where
  "np_dot44_42 A B = (case A of (r1, r2, r3, r4) \<Rightarrow>
     (row_times42 r1 B, row_times42 r2 B, row_times42 r3 B, row_times42 r4 B))"

text \<open>The null-space projector of the constructor:
  \<open>np.eye(4) - np.dot(J_ori_dagger, J_ori)\<close>.\<close>

definition nsproj :: "mat42 \<Rightarrow> mat24 \<Rightarrow> mat44" where
  "nsproj Jd J = mat44_sub eye4 (np_dot42_24 Jd J)"

definition init_node :: "dq_tools \<Rightarrow> 'p \<Rightarrow> bool \<Rightarrow> mat42 \<Rightarrow> mat24 \<Rightarrow> mat43 \<Rightarrow> 'p node" where
  "init_node T side act Jd J Jart =
     (case convertSetPoints2DqFormat T (0, 0, 3 / 10) (0, 0, 0) of
        (ori_q, pose_dq) \<Rightarrow>
          \<lparr>node_name = ''chassis_control'',
           drive_side = side,
           active = act,
           msg_grndDist = None,
           msg_jointState = None,
           msg_imu = None,
           ctrlType_curr = ctrlType ''orientation'',
           flpJointPosSp_l = replicate 4 (110 * pi / 180),
           kmu_l = replicate 4 (3 / 10),
           x_sp_ori_q = ori_q,
           x_sp_dq = pose_dq,
           kp_o_q = Quaternion 1 2 4 1,
           kp_a_dq = DQ 1 2 4 1 1 1 1 (8 / 10),
           J_ori_dagger = Jd,
           J_ori = J,
           J_ori_nsproj = nsproj Jd J,
           J_art_dagger = Jart,
           e_a_R_dq = None\<rparr>)"

section \<open>The helpers of rosi_common, modelled\<close>

text \<open>\<open>math.atan2\<close>, from \<open>arctan\<close>: the angle of the point \<open>(x, y)\<close> in \<open>(-\<pi>, \<pi>]\<close>.\<close>

definition atan2 :: "real \<Rightarrow> real \<Rightarrow> real" where
  "atan2 y x =
     (if 0 < x then arctan (y / x)
      else if x < 0 then (if 0 \<le> y then arctan (y / x) + pi else arctan (y / x) - pi)
      else if 0 < y then pi / 2
      else if y < 0 then - (pi / 2)
      else 0)"

text \<open>Modelled from the spec: \<open>quat2rpy\<close> of \<open>rosi_common.dq_tools\<close> is not among the
  sources. The spec has the orientation decomposed "into roll/pitch/yaw"; the model is
  the roll, pitch and yaw of the rotation \<open>Rz(yaw) Ry(pitch) Rx(roll)\<close> that a unit
  quaternion stands for.\<close>

definition spec_quat2rpy :: "quaternion \<Rightarrow> vec3" where
  "spec_quat2rpy q =
     (atan2 (2 * (qw q * qx q + qy q * qz q)) (1 - 2 * (qx q * qx q + qy q * qy q)),
      arcsin (2 * (qw q * qy q - qz q * qx q)),
      atan2 (2 * (qw q * qz q + qx q * qy q)) (1 - 2 * (qy q * qy q + qz q * qz q)))"

text \<open>Modelled from the spec: \<open>rpy2quat\<close> of \<open>rosi_common.dq_tools\<close> is not among the
  sources. The spec has an orientation given "in roll-pitch-yaw form" turned into a
  quaternion, and "a yaw-only correction quaternion" built from a yaw alone; the model is
  the quaternion \<open>[w, x, y, z]\<close> of \<open>Rz(yaw) Ry(pitch) Rx(roll)\<close>.\<close>

definition spec_rpy2quat :: "vec3 \<Rightarrow> vec4" where
  "spec_rpy2quat rpy = (case rpy of (r, p, y) \<Rightarrow>
     (cos (r / 2) * cos (p / 2) * cos (y / 2) + sin (r / 2) * sin (p / 2) * sin (y / 2),
      sin (r / 2) * cos (p / 2) * cos (y / 2) - cos (r / 2) * sin (p / 2) * sin (y / 2),
      cos (r / 2) * sin (p / 2) * cos (y / 2) + sin (r / 2) * cos (p / 2) * sin (y / 2),
      cos (r / 2) * cos (p / 2) * sin (y / 2) - sin (r / 2) * sin (p / 2) * cos (y / 2)))"

text \<open>Modelled from the spec: \<open>trAndOri2dq\<close> of \<open>rosi_common.dq_tools\<close> is not among the
  sources. The spec has a pose "composed with a fixed translate-then-rotate convention":
  with \<open>'trfirst'\<close> the pose is the translation \<open>1 + \<epsilon> t / 2\<close> times the rotation, and
  in the other order otherwise.\<close>

definition spec_trAndOri2dq :: "vec3 \<Rightarrow> quaternion \<Rightarrow> string \<Rightarrow> dq" where
  "spec_trAndOri2dq tr q order = (case tr of (t1, t2, t3) \<Rightarrow>
     (let t_dq = DQ 1 0 0 0 0 (t1 / 2) (t2 / 2) (t3 / 2);
          r_dq = dq_of q (Quaternion 0 0 0 0)
      in if order = ''trfirst'' then dq_mul t_dq r_dq else dq_mul r_dq t_dq))"

text \<open>Modelled from the spec: \<open>dqElementwiseMul\<close> of \<open>rosi_common.dq_tools\<close> is not
  among the sources. The spec has the control signal as the "elementwise product" of the
  conjugated gain and the error: the eight coefficients are multiplied one by one.\<close>

definition spec_dqElementwiseMul :: "dq \<Rightarrow> dq \<Rightarrow> dq" where
  "spec_dqElementwiseMul a b =
     (case a of DQ a0 a1 a2 a3 a4 a5 a6 a7 \<Rightarrow> case b of DQ b0 b1 b2 b3 b4 b5 b6 b7 \<Rightarrow>
        DQ (a0 * b0) (a1 * b1) (a2 * b2) (a3 * b3) (a4 * b4) (a5 * b5) (a6 * b6) (a7 * b7))"

text \<open>Modelled from the spec: \<open>dqExtractTransV3\<close> of \<open>rosi_common.dq_tools\<close> is not
  among the sources. The spec has a pose "encoding rotation + translation" in the
  translate-then-rotate convention; the translation of \<open>p + \<epsilon> d\<close> is the vector part of
  \<open>2 d conj(p)\<close>.\<close>

definition spec_dqExtractTransV3 :: "dq \<Rightarrow> vec3" where
  "spec_dqExtractTransV3 h =
     (let t = qmul (dq_D h) (qconj (dq_P h)) in (2 * qx t, 2 * qy t, 2 * qz t))"

text \<open>Modelled from the spec: \<open>dq2trAndQuatArray\<close> of \<open>rosi_common.dq_tools\<close> is not
  among the sources. The spec has the articulation control signal "decomposed into a
  height-error scalar and a roll/pitch vector": the translation and the rotation
  quaternion (the primary part) of the dual quaternion.\<close>

definition spec_dq2trAndQuatArray :: "dq \<Rightarrow> vec3 \<times> quaternion" where
  "spec_dq2trAndQuatArray h = (spec_dqExtractTransV3 h, dq_P h)"

text \<open>Modelled from the spec: \<open>dq2rpy\<close> of \<open>rosi_common.dq_tools\<close> is not among the
  sources. The spec has \<open>getPose\<close> return "an orientation reconstructed from the stored
  quaternion in roll-pitch-yaw form": the angles of the rotation part.\<close>

definition spec_dq2rpy :: "dq \<Rightarrow> vec3" where
  "spec_dq2rpy h = spec_quat2rpy (dq_P h)"

text \<open>Modelled from the spec: \<open>correctFlippersJointSignal\<close> of
  \<open>rosi_common.rosi_tools\<close> is not among the sources. The spec has the flipper angles
  "sign-corrected per a fixed convention"; the signs are a parameter.\<close>

definition spec_correctFlippersJointSignal :: "real list \<Rightarrow> real list \<Rightarrow> real list" where
  "spec_correctFlippersJointSignal signs xs = map2 (*) signs xs"

definition spec_tools :: "real list \<Rightarrow> dq_tools" where
  "spec_tools signs =
     \<lparr>quat2rpy = spec_quat2rpy,
      rpy2quat = spec_rpy2quat,
      trAndOri2dq = spec_trAndOri2dq,
      dqElementwiseMul = spec_dqElementwiseMul,
      dq2trAndQuatArray = spec_dq2trAndQuatArray,
      dqExtractTransV3 = spec_dqExtractTransV3,
      dq2rpy = spec_dq2rpy,
      correctFlippersJointSignal = spec_correctFlippersJointSignal signs\<rparr>"

section \<open>A sample configuration\<close>

text \<open>A geometry with the four units at the corners of a square, its orientation
  Jacobian with the pseudo-inverse, and a node built on them that has received one
  message on every topic.\<close>

definition ex_tools :: dq_tools where
  "ex_tools = spec_tools [1, - 1, - 1, 1]"

definition ex_Jd :: mat42 where
  "ex_Jd = ((1, 1), (1, - 1), (- 1, 1), (- 1, - 1))"

definition ex_J :: mat24 where
  "ex_J = ((1 / 4, 1 / 4, - (1 / 4), - (1 / 4)), (1 / 4, - (1 / 4), 1 / 4, - (1 / 4)))"

definition ex_Jart :: mat43 where
  "ex_Jart = ((1, 1, 1), (1, 1, - 1), (1, - 1, 1), (1, - 1, - 1))"

definition ex_init :: "string node" where
  "ex_init = init_node ex_tools ''a'' True ex_Jd ex_J ex_Jart"

definition ex_ready :: "string node" where
  "ex_ready = ex_init
     \<lparr>msg_grndDist := Some [(0, 0, 3 / 10)],
      msg_jointState := Some [0, 0, 0, 0, 1, 2, 3, 4],
      msg_imu := Some (Quaternion 1 0 0 0)\<rparr>"

text \<open>The sample node in the null-space mode, with the corrected flipper angles at
  their targets of 110 degrees.\<close>

definition ex_level :: "string node" where
  "ex_level = ex_ready\<lparr>ctrlType_curr := 2,
     msg_jointState := Some [0, 0, 0, 0, 11 * pi / 18, - (11 * pi / 18), - (11 * pi / 18), 11 * pi / 18]\<rparr>"

text \<open>The sample node in Articulation mode, with other gains, on the ground, after a
  set-pose-set-point request for the origin with the identity orientation.\<close>

definition ex_art :: "string node" where
  "ex_art = fst (srvcllbck_setPoseSetPoint ex_tools
     (ex_ready\<lparr>ctrlType_curr := 3, msg_grndDist := Some [(5, 7, 0)],
        kp_a_dq := DQ 1 3 5 2 1 6 7 9\<rparr>) (0, 0, 0) (0, 0, 0))"


section \<open>Predicates of the claims\<close>

text \<open>All three sensor snapshots have been populated.\<close>

definition all_set :: "'p node \<Rightarrow> bool" where
  "all_set s = (msg_grndDist s \<noteq> None \<and> msg_jointState s \<noteq> None \<and> msg_imu s \<noteq> None)"

text \<open>The stored snapshots can be used by an iteration: the ground-distance message has
  a first vector and, in the null-space mode, the joint state gives four corrected
  flipper angles against the four targets and gains.\<close>

definition inputs_usable :: "dq_tools \<Rightarrow> 'p node \<Rightarrow> bool" where
  "inputs_usable T s =
     (case (msg_grndDist s, msg_jointState s) of
        (Some (v0 # vs), Some position) \<Rightarrow>
          (if ctrlType_curr s = 2
           then length (zip (correctFlippersJointSignal T (drop 4 position))
                            (zip (flpJointPosSp_l s) (kmu_l s))) = 4
           else True)
      | _ \<Rightarrow> False)"

text \<open>Two nodes that differ at most in the stored drive side; two events that differ at
  most in the drive-side parameter read by an iteration; a result with the drive side
  overwritten.\<close>

definition same_but_side :: "'p node \<Rightarrow> 'p node \<Rightarrow> bool" where
  "same_but_side s1 s2 = (s2 = s1\<lparr>drive_side := drive_side s2\<rparr>)"

fun same_but_param :: "'p event \<Rightarrow> 'p event \<Rightarrow> bool" where
  "same_but_param (Tick t1 p1) (Tick t2 p2) = (t1 = t2)"
| "same_but_param e1 e2 = (e1 = e2)"

definition forget_side :: "'p \<Rightarrow> error + 'p node \<Rightarrow> error + 'p node" where
  "forget_side d r = (case r of Inl err \<Rightarrow> Inl err | Inr s \<Rightarrow> Inr (s\<lparr>drive_side := d\<rparr>))"

text \<open>The Orientation law in the words of the spec, to compare the code with: the error
  is conjugate(set-point) times the current orientation, the control signal is the
  product of the conjugated gain's and the error's roll (x) and pitch (y) components, and
  the command is \<open>J_ori_dagger\<close> applied to these two.\<close>

definition orientation_command_spec ::
  "mat42 \<Rightarrow> quaternion \<Rightarrow> quaternion \<Rightarrow> quaternion \<Rightarrow> real list" where
  "orientation_command_spec Jd sp kp x =
     (let e = qmul (qconj sp) x;
          u_roll = qx (qconj kp) * qx e;
          u_pitch = qy (qconj kp) * qy e
      in case Jd of ((a1, b1), (a2, b2), (a3, b3), (a4, b4)) \<Rightarrow>
           [a1 * u_roll + b1 * u_pitch, a2 * u_roll + b2 * u_pitch,
            a3 * u_roll + b3 * u_pitch, a4 * u_roll + b4 * u_pitch])"

text \<open>The Moore-Penrose pseudo-inverse, by the four Penrose equations: \<open>X\<close> is the
  pseudo-inverse of \<open>A\<close> (what \<open>np.linalg.pinv\<close> computes, in exact arithmetic) when
  \<open>A X A = A\<close>, \<open>X A X = X\<close>, and \<open>A X\<close> and \<open>X A\<close> are symmetric.\<close>

type_synonym mat22 = "vec2 \<times> vec2"

definition np_dot24_42 :: "mat24 \<Rightarrow> mat42 \<Rightarrow> mat22" where
  "np_dot24_42 X A = (case X of (x1, x2) \<Rightarrow> (row_times42 x1 A, row_times42 x2 A))"

definition np_dot22_24 :: "mat22 \<Rightarrow> mat24 \<Rightarrow> mat24" where
  "np_dot22_24 M X = (case M of (r1, r2) \<Rightarrow> (row_times24 r1 X, row_times24 r2 X))"

definition transpose22 :: "mat22 \<Rightarrow> mat22" where
  "transpose22 M = (case M of ((a, b), (c, d)) \<Rightarrow> ((a, c), (b, d)))"

definition transpose44 :: "mat44 \<Rightarrow> mat44" where
  "transpose44 M =
     (case M of ((x1, x2, x3, x4), (y1, y2, y3, y4), (z1, z2, z3, z4), (w1, w2, w3, w4)) \<Rightarrow>
        ((x1, y1, z1, w1), (x2, y2, z2, w2), (x3, y3, z3, w3), (x4, y4, z4, w4)))"

definition is_pinv :: "mat42 \<Rightarrow> mat24 \<Rightarrow> bool" where
  "is_pinv A X =
     (np_dot44_42 (np_dot42_24 A X) A = A \<and>
      np_dot22_24 (np_dot24_42 X A) X = X \<and>
      transpose44 (np_dot42_24 A X) = np_dot42_24 A X \<and>
      transpose22 (np_dot24_42 X A) = np_dot24_42 X A)"

definition zero44 :: mat44 where
  "zero44 = ((0, 0, 0, 0), (0, 0, 0, 0), (0, 0, 0, 0), (0, 0, 0, 0))"

section \<open>Facts used throughout\<close>

lemma ctrlType_vals [simp]:
  "ctrlType ''orientation'' = 1" "ctrlType ''orientationNullSpace'' = 2" "ctrlType ''articulation'' = 3"
  by (simp_all add: ctrlType_def chassisCtrlType_def)

lemmas ex_eval = nodeMain_iter_def ex_ready_def ex_init_def init_node_def convertSetPoints2DqFormat_def
    ex_tools_def spec_tools_def deyaw_def spec_quat2rpy_def spec_rpy2quat_def quat_of_vec4_def atan2_def
    articulation_pose_def spec_trAndOri2dq_def dq_mul_def dq_of_def dq_P_def dq_D_def qmul_def qadd_def
    ctrl_modes_def qconj_def components_def np_dot42_def dot2_def ex_Jd_def vec4_list_def
    dq2DualQuaternionStampedMsg_def Let_def

lemma ctrl_modes_cases:
  "ctrl_modes T s position x_o x_a = Inl err \<Longrightarrow> err = ValueError \<and> ctrlType_curr s = 2"
  by (auto simp: ctrl_modes_def Let_def reshape41_def split: if_splits sum.splits prod.splits list.splits)

lemma nodeMain_iter_state:
  "nodeMain_iter T t p s = (ps, Inr s') \<Longrightarrow>
     s' = s \<or> (\<exists>e. s' = s\<lparr>drive_side := p, e_a_R_dq := Some e\<rparr>)"
  by (auto simp: nodeMain_iter_def Let_def split: if_splits option.splits list.splits sum.splits prod.splits)

lemma step_keeps:
  assumes "step T e s = (out, Inr s')"
  shows "ctrlType_curr s \<in> {1, 2, 3} \<Longrightarrow> ctrlType_curr s' \<in> {1, 2, 3}"
    and "msg_imu s \<noteq> None \<Longrightarrow> msg_imu s' \<noteq> None"
    and "msg_grndDist s \<noteq> None \<Longrightarrow> msg_grndDist s' \<noteq> None"
    and "msg_jointState s \<noteq> None \<Longrightarrow> msg_jointState s' \<noteq> None"
  using assms
  by (cases e; auto simp: cllbck_imu_def cllbck_grndDist_def cllbck_jointState_def
      srvcllbck_setActive_def srvcllbck_setPoseSetPoint_def srvcllbck_setPoseCtrlGain_def
      srvcllbck_setCtrlType_def srvcllbck_getPoseSetPoint_def srvcllbck_getPoseCtrlGain_def
      chassisCtrlType_def Let_def
      dest!: nodeMain_iter_state split: prod.splits if_splits)+


lemma run_invariant:
  assumes inv: "\<And>e s out s'. P s \<Longrightarrow> step T e s = (out, Inr s') \<Longrightarrow> P s'"
    and "P s" and "run T es s = (out, Inr s')"
  shows "P s'"
  using assms(2,3)
proof (induction es arbitrary: s out)
  case Nil
  then show ?case by simp
next
  case (Cons e es)
  from Cons.prems(2) obtain o1 s1 o2 where a: "step T e s = (o1, Inr s1)"
    and b: "run T es s1 = (o2, Inr s')"
    by (auto split: prod.splits sum.splits)
  from inv [OF Cons.prems(1) a] have "P s1" .
  from Cons.IH [OF this b] show ?case .
qed


section \<open>Set-control-mode\<close>

text \<open>
  C2. A set-control-mode request with a value in {1,2,3} replaces the active mode by
  that value and answers the new mode; any other value (0 and 4 among them) leaves the
  mode as it was and answers the sentinel -1.
\<close>

theorem setCtrlType_valid_or_sentinel:
  "(v \<in> {1, 2, 3} \<longrightarrow>
      srvcllbck_setCtrlType s v = (s\<lparr>ctrlType_curr := v\<rparr>, v)) \<and>
   (v \<notin> {1, 2, 3} \<longrightarrow> srvcllbck_setCtrlType s v = (s, - 1)) \<and>
   srvcllbck_setCtrlType s 0 = (s, - 1) \<and>
   srvcllbck_setCtrlType s 4 = (s, - 1)"
  by (auto simp: srvcllbck_setCtrlType_def chassisCtrlType_def Let_def)

theorem setCtrlType_valid_or_sentinel_witness:
  "(2::int) \<in> {1, 2, 3} \<and>
   srvcllbck_setCtrlType ex_ready 2 = (ex_ready\<lparr>ctrlType_curr := 2\<rparr>, 2) \<and>
   (7::int) \<notin> {1, 2, 3} \<and>
   srvcllbck_setCtrlType ex_ready 7 = (ex_ready, - 1) \<and>
   srvcllbck_setCtrlType ex_ready 0 = (ex_ready, - 1) \<and>
   srvcllbck_setCtrlType ex_ready 4 = (ex_ready, - 1)"
  using setCtrlType_valid_or_sentinel [of 2 ex_ready] setCtrlType_valid_or_sentinel [of 7 ex_ready]
  by simp

section \<open>The invalid-mode branch\<close>




text \<open>
  The one way the branch could fail to complete lies outside the reachable states: were
  the mode invalid before any iteration had bound \<open>e_a_R_dq\<close>, the iteration would
  publish the zero command, the current pose and the set-point and end in
  \<open>UnboundLocalError\<close> at the pose-error message.
\<close>

lemma invalid_mode_unbound_pose_error:
  "ctrlType_curr (ex_ready\<lparr>ctrlType_curr := 0\<rparr>) \<notin> {1, 2, 3} \<and>
   e_a_R_dq (ex_ready\<lparr>ctrlType_curr := 0\<rparr>) = None \<and>
   commandOutputs (fst (nodeMain_iter ex_tools 0 ''a'' (ex_ready\<lparr>ctrlType_curr := 0\<rparr>))) = [[0, 0, 0, 0]] \<and>
   snd (nodeMain_iter ex_tools 0 ''a'' (ex_ready\<lparr>ctrlType_curr := 0\<rparr>)) = Inl UnboundLocalError"
  by (simp add: ex_eval)




section \<open>The readiness gate of the loop\<close>

lemma len4: "length xs = 4 \<Longrightarrow> \<exists>a b c d. xs = [a, b, c, d]"
  by (cases xs; simp; rename_tac ys; case_tac ys; simp; rename_tac zs; case_tac zs; simp; rename_tac ws; case_tac ws; simp)

lemma iter_idle:
  "active s \<Longrightarrow> \<not> all_set s \<Longrightarrow> nodeMain_iter T t p s = ([], Inr s)"
  by (auto simp: nodeMain_iter_def all_set_def split: option.splits)

lemma iter_snapshots:
  "nodeMain_iter T t p s = (ps, Inr s') \<Longrightarrow>
     msg_grndDist s' = msg_grndDist s \<and> msg_jointState s' = msg_jointState s \<and> msg_imu s' = msg_imu s"
  by (auto dest!: nodeMain_iter_state)

lemma ctrl_modes_ok:
  assumes "ctrlType_curr s = 2 \<Longrightarrow>
      length (zip (correctFlippersJointSignal T (drop 4 position)) (zip (flpJointPosSp_l s) (kmu_l s))) = 4"
  shows "ctrl_modes T s position x_o x_a \<noteq> Inl err"
proof
  assume e: "ctrl_modes T s position x_o x_a = Inl err"
  then have m: "ctrlType_curr s = 2" by (rule ctrl_modes_cases [THEN conjunct2])
  let ?mu = "map (\<lambda>(jcurr, jsp, ki). ki * (jsp - jcurr))
     (zip (correctFlippersJointSignal T (drop 4 position)) (zip (flpJointPosSp_l s) (kmu_l s)))"
  from assms m have "length ?mu = 4" by simp
  then have "\<exists>a b c d. ?mu = [a, b, c, d]" by (rule len4)
  then obtain a b c d where "?mu = [a, b, c, d]" by auto
  then have "reshape41 ?mu = Inr (a, b, c, d)" by (simp add: reshape41_def)
  with m e show False by (simp add: ctrl_modes_def Let_def)
qed

lemma iter_one_command:
  assumes "active s" "all_set s" "inputs_usable T s"
  shows "length (commandOutputs (fst (nodeMain_iter T t p s))) = 1"
proof -
  from assms(2,3) obtain v0 vs position q_imu where m: "msg_grndDist s = Some (v0 # vs)"
    "msg_jointState s = Some position" "msg_imu s = Some q_imu"
    by (auto simp: all_set_def inputs_usable_def split: option.splits list.splits)
  from assms(3) m have "ctrlType_curr s = 2 \<Longrightarrow>
      length (zip (correctFlippersJointSignal T (drop 4 position)) (zip (flpJointPosSp_l s) (kmu_l s))) = 4"
    by (simp add: inputs_usable_def split: if_splits)
  from ctrl_modes_ok [OF this] have
    "\<And>err. ctrl_modes T s position (deyaw T q_imu) (articulation_pose T v0 (deyaw T q_imu)) \<noteq> Inl err" .
  with assms(1) m show ?thesis
    by (simp add: nodeMain_iter_def Let_def split: option.splits sum.splits prod.splits)
qed


text \<open>
  C3, as stated, fails: with the node active and all three snapshots populated, an
  iteration whose stored ground-distance message has an empty \<open>vec\<close> raises
  \<open>IndexError\<close> at \<open>vec[0]\<close> and publishes nothing.
\<close>

theorem readiness_gate_empty_vec_counterexample:
  "active (ex_ready\<lparr>msg_grndDist := Some []\<rparr>) \<and>
   all_set (ex_ready\<lparr>msg_grndDist := Some []\<rparr>) \<and>
   nodeMain_iter ex_tools 1 ''a'' (ex_ready\<lparr>msg_grndDist := Some []\<rparr>) = ([], Inl IndexError)"
  by (simp add: ex_eval all_set_def)


text \<open>
  C3, amended. On an iteration in which the node is active: if one of the three
  snapshots has never been populated, nothing is published and the node is left as it
  is. A snapshot that has been populated stays populated through every later event, and
  an iteration leaves the three snapshots as they are (stale values are reused). And
  once all three are populated, an active iteration publishes exactly one CommandOutput,
  provided the stored inputs are usable: the ground-distance message has a first vector
  and, in the null-space mode, the joint state yields four corrected flipper angles.
\<close>

theorem readiness_gate:
  "(active s \<and> \<not> all_set s \<longrightarrow> nodeMain_iter T t p s = ([], Inr s)) \<and>
   (run T es s = (out, Inr s') \<longrightarrow>
      (msg_grndDist s \<noteq> None \<longrightarrow> msg_grndDist s' \<noteq> None) \<and>
      (msg_jointState s \<noteq> None \<longrightarrow> msg_jointState s' \<noteq> None) \<and>
      (msg_imu s \<noteq> None \<longrightarrow> msg_imu s' \<noteq> None)) \<and>
   (nodeMain_iter T t p s = (ps, Inr s') \<longrightarrow>
      msg_grndDist s' = msg_grndDist s \<and> msg_jointState s' = msg_jointState s \<and>
      msg_imu s' = msg_imu s) \<and>
   (active s \<and> all_set s \<and> inputs_usable T s \<longrightarrow>
      length (commandOutputs (fst (nodeMain_iter T t p s))) = 1)"
proof (intro conjI impI)
  assume "active s \<and> \<not> all_set s"
  then show "nodeMain_iter T t p s = ([], Inr s)" by (simp add: iter_idle)
next
  assume r: "run T es s = (out, Inr s')" and "msg_grndDist s \<noteq> None"
  from run_invariant [of "\<lambda>s. msg_grndDist s \<noteq> None" T, OF step_keeps(3) this(2) r]
  show "msg_grndDist s' \<noteq> None" .
next
  assume r: "run T es s = (out, Inr s')" and "msg_jointState s \<noteq> None"
  from run_invariant [of "\<lambda>s. msg_jointState s \<noteq> None" T, OF step_keeps(4) this(2) r]
  show "msg_jointState s' \<noteq> None" .
next
  assume r: "run T es s = (out, Inr s')" and "msg_imu s \<noteq> None"
  from run_invariant [of "\<lambda>s. msg_imu s \<noteq> None" T, OF step_keeps(2) this(2) r]
  show "msg_imu s' \<noteq> None" .
next
  assume "active s \<and> all_set s \<and> inputs_usable T s"
  then show "length (commandOutputs (fst (nodeMain_iter T t p s))) = 1"
    by (simp add: iter_one_command)
qed (simp_all add: iter_snapshots)

theorem readiness_gate_witness:
  "active ex_init \<and> \<not> all_set ex_init \<and>
   nodeMain_iter ex_tools 1 ''b'' ex_init = ([], Inr ex_init) \<and>
   run ex_tools [GetCtrlType] ex_ready = ([IntResponse 1], Inr ex_ready) \<and>
   msg_grndDist ex_ready \<noteq> None \<and> msg_jointState ex_ready \<noteq> None \<and> msg_imu ex_ready \<noteq> None \<and>
   active ex_ready \<and> all_set ex_ready \<and> inputs_usable ex_tools ex_ready \<and>
   length (commandOutputs (fst (nodeMain_iter ex_tools 1 ''b'' ex_ready))) = 1"
proof -
  have a: "active ex_init \<and> \<not> all_set ex_init"
    by (simp add: ex_init_def init_node_def all_set_def split: prod.splits)
  have b: "run ex_tools [GetCtrlType] ex_ready = ([IntResponse 1], Inr ex_ready)"
    by (simp add: srvcllbck_getCtrlType_def ex_ready_def ex_init_def init_node_def split: prod.splits)
  have c: "msg_grndDist ex_ready \<noteq> None \<and> msg_jointState ex_ready \<noteq> None \<and> msg_imu ex_ready \<noteq> None"
    by (simp add: ex_ready_def)
  have d: "active ex_ready \<and> all_set ex_ready \<and> inputs_usable ex_tools ex_ready"
    by (simp add: ex_ready_def ex_init_def init_node_def all_set_def inputs_usable_def split: prod.splits)
  from a b c d
    readiness_gate [where s = ex_init and T = ex_tools and t = 1 and p = "''b''"]
    readiness_gate [where s = ex_ready and T = ex_tools and t = 1 and p = "''b''"
      and es = "[GetCtrlType]" and out = "[IntResponse 1]" and s' = ex_ready]
  show ?thesis by simp
qed

section \<open>The drive side\<close>

lemma ctrl_modes_side [simp]: "ctrl_modes T (s\<lparr>drive_side := d\<rparr>) = ctrl_modes T s"
  by (intro ext) (simp add: ctrl_modes_def Let_def split: sum.splits prod.splits)

lemma iter_side:
  "fst (nodeMain_iter T t p2 (s\<lparr>drive_side := d\<rparr>)) = fst (nodeMain_iter T t p1 s) \<and>
   forget_side c (snd (nodeMain_iter T t p2 (s\<lparr>drive_side := d\<rparr>))) =
   forget_side c (snd (nodeMain_iter T t p1 s))"
  by (simp add: nodeMain_iter_def forget_side_def Let_def
      split: option.splits list.splits sum.splits prod.splits)

lemma same_but_param_cases:
  "same_but_param e1 e2 \<Longrightarrow> e1 = e2 \<or> (\<exists>t p1 p2. e1 = Tick t p1 \<and> e2 = Tick t p2)"
  by (cases e1; cases e2; simp)

lemma step_side:
  assumes "same_but_param e1 e2"
  shows "fst (step T e2 (s\<lparr>drive_side := d\<rparr>)) = fst (step T e1 s) \<and>
     forget_side c (snd (step T e2 (s\<lparr>drive_side := d\<rparr>))) = forget_side c (snd (step T e1 s))"
proof -
  have tick: "fst (step T (Tick t p2) (s\<lparr>drive_side := d\<rparr>)) = fst (step T (Tick t p1) s) \<and>
     forget_side c (snd (step T (Tick t p2) (s\<lparr>drive_side := d\<rparr>))) =
     forget_side c (snd (step T (Tick t p1) s))" for t p1 p2
    using iter_side [where T = T and t = t and ?p2.0 = p2 and s = s and d = d and ?p1.0 = p1 and c = c] by (simp add: split_beta)
  from same_but_param_cases [OF assms] show ?thesis
  proof
    assume "e1 = e2"
    then show ?thesis
    proof (cases e2)
      case (Tick t p)
      with \<open>e1 = e2\<close> tick [of t p p] show ?thesis by simp
    qed (simp_all add: forget_side_def cllbck_imu_def cllbck_grndDist_def
          cllbck_jointState_def srvcllbck_setActive_def srvcllbck_setPoseSetPoint_def
          srvcllbck_setPoseCtrlGain_def srvcllbck_setCtrlType_def srvcllbck_getCtrlType_def
          srvcllbck_getPoseSetPoint_def srvcllbck_getPoseCtrlGain_def Let_def split_beta)
  next
    assume "\<exists>t p1 p2. e1 = Tick t p1 \<and> e2 = Tick t p2"
    then obtain t p1 p2 where "e1 = Tick t p1" "e2 = Tick t p2" by blast
    with tick [of t p2 p1] show ?thesis by simp
  qed
qed

lemma run_side:
  assumes "list_all2 same_but_param es1 es2"
  shows "fst (run T es2 (s\<lparr>drive_side := d\<rparr>)) = fst (run T es1 s) \<and>
     forget_side c (snd (run T es2 (s\<lparr>drive_side := d\<rparr>))) = forget_side c (snd (run T es1 s))"
  using assms
proof (induction es1 es2 arbitrary: s d rule: list_all2_induct)
  case Nil
  then show ?case by (simp add: forget_side_def)
next
  case (Cons e1 es1 e2 es2)
  from step_side [OF Cons.hyps(1), where T = T and s = s and d = d and c = c]
  have f: "fst (step T e2 (s\<lparr>drive_side := d\<rparr>)) = fst (step T e1 s)"
    and g: "forget_side c (snd (step T e2 (s\<lparr>drive_side := d\<rparr>))) = forget_side c (snd (step T e1 s))"
    by simp_all
  show ?case
  proof (cases "snd (step T e1 s)")
    case (Inl err)
    with g have "snd (step T e2 (s\<lparr>drive_side := d\<rparr>)) = Inl err"
      by (simp add: forget_side_def split: sum.splits)
    with Inl f show ?thesis
      by (cases "step T e1 s"; cases "step T e2 (s\<lparr>drive_side := d\<rparr>)") (simp add: forget_side_def)
  next
    case (Inr s1)
    with g obtain s2 where s2: "snd (step T e2 (s\<lparr>drive_side := d\<rparr>)) = Inr s2"
      and eq: "s2\<lparr>drive_side := c\<rparr> = s1\<lparr>drive_side := c\<rparr>"
      by (auto simp: forget_side_def split: sum.splits)
    from eq have "s2 = s1\<lparr>drive_side := drive_side s2\<rparr>"
      by (cases s1; cases s2) simp
    with Cons.IH [where s = s1 and d = "drive_side s2"]
    have "fst (run T es2 s2) = fst (run T es1 s1) \<and>
       forget_side c (snd (run T es2 s2)) = forget_side c (snd (run T es1 s1))" by simp
    with Inr s2 f show ?thesis
      by (cases "step T e1 s"; cases "step T e2 (s\<lparr>drive_side := d\<rparr>)") (simp add: split_beta)
  qed
qed

lemma init_side:
  "same_but_side (init_node T a act Jd J Jart) (init_node T b act Jd J Jart)"
  by (simp add: same_but_side_def init_node_def split: prod.splits)

text \<open>
  C10. The drive-side value does not influence what the node emits: two runs over the
  same events, from nodes that differ at most in the stored drive side and with
  iterations that read different values of the drive-side parameter, emit the same
  publications (commands, current pose, set-point, error, gain) and service responses,
  end in the same exception if any, and otherwise in nodes that differ at most in the
  drive side. Two nodes constructed with different values of the parameter differ at
  most so.
\<close>

theorem drive_side_noninterference:
  "(same_but_side s1 s2 \<and> list_all2 same_but_param es1 es2 \<longrightarrow>
      fst (run T es1 s1) = fst (run T es2 s2) \<and>
      forget_side d (snd (run T es1 s1)) = forget_side d (snd (run T es2 s2))) \<and>
   same_but_side (init_node T a act Jd J Jart) (init_node T b act Jd J Jart)"
proof (intro conjI impI)
  assume a: "same_but_side s1 s2 \<and> list_all2 same_but_param es1 es2"
  then have "s2 = s1\<lparr>drive_side := drive_side s2\<rparr>" by (simp add: same_but_side_def)
  with run_side [where ?es1.0 = es1 and ?es2.0 = es2 and T = T and s = s1 and d = "drive_side s2" and c = d] a
  show "fst (run T es1 s1) = fst (run T es2 s2)"
    and "forget_side d (snd (run T es1 s1)) = forget_side d (snd (run T es2 s2))" by simp_all
qed (rule init_side)

theorem drive_side_noninterference_witness:
  "same_but_side ex_ready (ex_ready\<lparr>drive_side := ''b''\<rparr>) \<and>
   list_all2 same_but_param [Tick 1 ''a'', SetCtrlType 2, Tick 2 ''a''] [Tick 1 ''b'', SetCtrlType 2, Tick 2 ''c''] \<and>
   fst (run ex_tools [Tick 1 ''a'', SetCtrlType 2, Tick 2 ''a''] ex_ready) =
   fst (run ex_tools [Tick 1 ''b'', SetCtrlType 2, Tick 2 ''c''] (ex_ready\<lparr>drive_side := ''b''\<rparr>)) \<and>
   forget_side ''z'' (snd (run ex_tools [Tick 1 ''a'', SetCtrlType 2, Tick 2 ''a''] ex_ready)) =
   forget_side ''z'' (snd (run ex_tools [Tick 1 ''b'', SetCtrlType 2, Tick 2 ''c''] (ex_ready\<lparr>drive_side := ''b''\<rparr>)))"
proof -
  have h: "same_but_side ex_ready (ex_ready\<lparr>drive_side := ''b''\<rparr>) \<and>
   list_all2 same_but_param [Tick 1 ''a'', SetCtrlType 2, Tick 2 ''a''] [Tick 1 ''b'', SetCtrlType 2, Tick 2 ''c'']"
    by (simp add: same_but_side_def)
  from h drive_side_noninterference [where ?s1.0 = ex_ready and ?s2.0 = "ex_ready\<lparr>drive_side := ''b''\<rparr>"
      and ?es1.0 = "[Tick 1 ''a'', SetCtrlType 2, Tick 2 ''a'']"
      and ?es2.0 = "[Tick 1 ''b'', SetCtrlType 2, Tick 2 ''c'']" and T = ex_tools and d = "''z''",
      THEN conjunct1]
  show ?thesis by blast
qed

section \<open>The Orientation law\<close>

lemma orientation_iter:
  assumes "ctrlType_curr s = 1" "active s" "msg_grndDist s = Some (v0 # vs)"
    "msg_jointState s = Some position" "msg_imu s = Some q_imu"
  shows "nodeMain_iter T t p s =
     (let x = deyaw T q_imu;
          e = qmul (qconj (x_sp_ori_q s)) x;
          u = (qx (qconj (kp_o_q s)) * qx e, qy (qconj (kp_o_q s)) * qy e);
          e_dq = DQ (qw e) (qx e) (qy e) (qz e) 0 0 0 0
      in ([CmdVelFlipperSpace t (node_name s) (map (\<lambda>c. (0, 0, c)) (vec4_list (np_dot42 (J_ori_dagger s) u))),
           DqPoseCurr (dq2DualQuaternionStampedMsg (articulation_pose T v0 x) t (node_name s)),
           DqSetPoint (dq2DualQuaternionStampedMsg (x_sp_dq s) t (node_name s)),
           DqError (dq2DualQuaternionStampedMsg e_dq t (node_name s)),
           DqSP (dq2DualQuaternionStampedMsg (kp_a_dq s) t (node_name s))],
          Inr (s\<lparr>drive_side := p, e_a_R_dq := Some e_dq\<rparr>)))"
  using assms
  by (simp add: nodeMain_iter_def ctrl_modes_def Let_def components_def)

text \<open>
  C4. In Orientation mode the command published is \<open>J_ori_dagger\<close> applied to the roll
  and pitch components of the elementwise product of the conjugated gain and the error
  quaternion, the error being conjugate(set-point orientation) times the current de-yawed
  orientation; that error, padded with a zero dual part, is what the pose-error topic
  carries.
\<close>

theorem orientation_law:
  "ctrlType_curr s = 1 \<and> active s \<and> msg_grndDist s = Some (v0 # vs) \<and>
   msg_jointState s = Some position \<and> msg_imu s = Some q_imu \<longrightarrow>
     commandOutputs (fst (nodeMain_iter T t p s)) =
       [orientation_command_spec (J_ori_dagger s) (x_sp_ori_q s) (kp_o_q s) (deyaw T q_imu)] \<and>
     DqError (dq2DualQuaternionStampedMsg
        (dq_of (qmul (qconj (x_sp_ori_q s)) (deyaw T q_imu)) (Quaternion 0 0 0 0)) t (node_name s))
       \<in> set (fst (nodeMain_iter T t p s))"
proof
  assume a: "ctrlType_curr s = 1 \<and> active s \<and> msg_grndDist s = Some (v0 # vs) \<and>
   msg_jointState s = Some position \<and> msg_imu s = Some q_imu"
  obtain a1 b1 a2 b2 a3 b3 a4 b4 where J: "J_ori_dagger s = ((a1, b1), (a2, b2), (a3, b3), (a4, b4))"
    by (metis prod_cases4 surj_pair)
  from a have "nodeMain_iter T t p s = (let x = deyaw T q_imu;
          e = qmul (qconj (x_sp_ori_q s)) x;
          u = (qx (qconj (kp_o_q s)) * qx e, qy (qconj (kp_o_q s)) * qy e);
          e_dq = DQ (qw e) (qx e) (qy e) (qz e) 0 0 0 0
      in ([CmdVelFlipperSpace t (node_name s) (map (\<lambda>c. (0, 0, c)) (vec4_list (np_dot42 (J_ori_dagger s) u))),
           DqPoseCurr (dq2DualQuaternionStampedMsg (articulation_pose T v0 x) t (node_name s)),
           DqSetPoint (dq2DualQuaternionStampedMsg (x_sp_dq s) t (node_name s)),
           DqError (dq2DualQuaternionStampedMsg e_dq t (node_name s)),
           DqSP (dq2DualQuaternionStampedMsg (kp_a_dq s) t (node_name s))],
          Inr (s\<lparr>drive_side := p, e_a_R_dq := Some e_dq\<rparr>)))"
    by (intro orientation_iter) simp_all
  then show "commandOutputs (fst (nodeMain_iter T t p s)) =
       [orientation_command_spec (J_ori_dagger s) (x_sp_ori_q s) (kp_o_q s) (deyaw T q_imu)] \<and>
     DqError (dq2DualQuaternionStampedMsg
        (dq_of (qmul (qconj (x_sp_ori_q s)) (deyaw T q_imu)) (Quaternion 0 0 0 0)) t (node_name s))
       \<in> set (fst (nodeMain_iter T t p s))"
    by (simp add: J Let_def orientation_command_spec_def np_dot42_def dot2_def vec4_list_def dq_of_def)
qed


theorem orientation_law_witness:
  "ctrlType_curr ex_ready = 1 \<and> active ex_ready \<and> msg_grndDist ex_ready = Some [(0, 0, 3 / 10)] \<and>
   msg_jointState ex_ready = Some [0, 0, 0, 0, 1, 2, 3, 4] \<and> msg_imu ex_ready = Some (Quaternion 1 0 0 0) \<and>
   commandOutputs (fst (nodeMain_iter ex_tools 1 ''a'' ex_ready)) =
       [orientation_command_spec (J_ori_dagger ex_ready) (x_sp_ori_q ex_ready) (kp_o_q ex_ready)
          (deyaw ex_tools (Quaternion 1 0 0 0))] \<and>
   DqError (dq2DualQuaternionStampedMsg
        (dq_of (qmul (qconj (x_sp_ori_q ex_ready)) (deyaw ex_tools (Quaternion 1 0 0 0))) (Quaternion 0 0 0 0))
        1 (node_name ex_ready))
       \<in> set (fst (nodeMain_iter ex_tools 1 ''a'' ex_ready))"
proof -
  have h: "ctrlType_curr ex_ready = 1 \<and> active ex_ready \<and>
      msg_grndDist ex_ready = Some ((0, 0, 3 / 10) # []) \<and>
      msg_jointState ex_ready = Some [0, 0, 0, 0, 1, 2, 3, 4] \<and>
      msg_imu ex_ready = Some (Quaternion 1 0 0 0)"
    by (simp add: ex_ready_def ex_init_def init_node_def split: prod.splits)
  from h orientation_law [where s = ex_ready and ?v0.0 = "(0, 0, 3 / 10)" and vs = "[]"
      and position = "[0, 0, 0, 0, 1, 2, 3, 4]" and q_imu = "Quaternion 1 0 0 0" and T = ex_tools
      and t = 1 and p = "''a''"]
  show ?thesis by simp
qed

section \<open>The null-space mode at the target angles\<close>

lemma mu_zero:
  assumes "length xs = 4" "length ks = 4"
  shows "map (\<lambda>(jcurr, jsp, ki). ki * (jsp - jcurr)) (zip xs (zip xs ks)) = [0, 0, 0, 0::real]"
proof -
  from len4 [OF assms(1)] obtain a b c d where "xs = [a, b, c, d]" by auto
  moreover from len4 [OF assms(2)] obtain k1 k2 k3 k4 where "ks = [k1, k2, k3, k4]" by auto
  ultimately show ?thesis by simp
qed

lemma np_dot44_zero: "np_dot44 M (0, 0, 0, 0) = (0, 0, 0, 0)"
  by (cases M) (auto simp: np_dot44_def dot4_def split: prod.splits)

lemma vec4_add_zero: "vec4_add u (0, 0, 0, 0) = u"
  by (cases u) (simp add: vec4_add_def)

lemma nullspace_iter:
  assumes "ctrlType_curr s = 2" "active s" "msg_grndDist s = Some (v0 # vs)"
    "msg_jointState s = Some position" "msg_imu s = Some q_imu"
    "correctFlippersJointSignal T (drop 4 position) = flpJointPosSp_l s"
    "length (flpJointPosSp_l s) = 4" "length (kmu_l s) = 4"
  shows "fst (nodeMain_iter T t p s) = fst (nodeMain_iter T t p (s\<lparr>ctrlType_curr := 1\<rparr>))"
proof -
  have c: "ctrl_modes T s position x_o x_a = ctrl_modes T (s\<lparr>ctrlType_curr := 1\<rparr>) position x_o x_a"
    for x_o x_a
    using assms(1) by (simp add: ctrl_modes_def Let_def assms(6) mu_zero [OF assms(7,8)]
        reshape41_def np_dot44_zero vec4_add_zero)
  from assms(2-5) show ?thesis
    by (simp add: nodeMain_iter_def c Let_def split: sum.splits prod.splits option.splits)
qed

text \<open>
  C5. In OrientationNullSpace mode, when the four sign-corrected flipper angles equal
  the four target angles (with four gains), the command is the one Orientation mode
  computes from the same state: the bias is the zero vector, and so is its projection.
\<close>

theorem nullspace_at_target_is_orientation:
  "ctrlType_curr s = 2 \<and> active s \<and> msg_grndDist s = Some (v0 # vs) \<and>
   msg_jointState s = Some position \<and> msg_imu s = Some q_imu \<and>
   correctFlippersJointSignal T (drop 4 position) = flpJointPosSp_l s \<and>
   length (flpJointPosSp_l s) = 4 \<and> length (kmu_l s) = 4 \<longrightarrow>
     commandOutputs (fst (nodeMain_iter T t p s)) =
     commandOutputs (fst (nodeMain_iter T t p (s\<lparr>ctrlType_curr := 1\<rparr>)))"
  using nullspace_iter [of s v0 vs position q_imu T t p] by simp

theorem nullspace_at_target_is_orientation_witness:
  "ctrlType_curr ex_level = 2 \<and> active ex_level \<and> msg_grndDist ex_level = Some [(0, 0, 3 / 10)] \<and>
   msg_jointState ex_level =
     Some [0, 0, 0, 0, 11 * pi / 18, - (11 * pi / 18), - (11 * pi / 18), 11 * pi / 18] \<and>
   msg_imu ex_level = Some (Quaternion 1 0 0 0) \<and>
   correctFlippersJointSignal ex_tools
     (drop 4 [0, 0, 0, 0, 11 * pi / 18, - (11 * pi / 18), - (11 * pi / 18), 11 * pi / 18]) =
     flpJointPosSp_l ex_level \<and>
   length (flpJointPosSp_l ex_level) = 4 \<and> length (kmu_l ex_level) = 4 \<and>
   commandOutputs (fst (nodeMain_iter ex_tools 1 ''a'' ex_level)) =
   commandOutputs (fst (nodeMain_iter ex_tools 1 ''a'' (ex_level\<lparr>ctrlType_curr := 1\<rparr>)))"
proof -
  have h: "ctrlType_curr ex_level = 2 \<and> active ex_level \<and>
     msg_grndDist ex_level = Some ((0, 0, 3 / 10) # []) \<and>
     msg_jointState ex_level =
       Some [0, 0, 0, 0, 11 * pi / 18, - (11 * pi / 18), - (11 * pi / 18), 11 * pi / 18] \<and>
     msg_imu ex_level = Some (Quaternion 1 0 0 0) \<and>
     correctFlippersJointSignal ex_tools
       (drop 4 [0, 0, 0, 0, 11 * pi / 18, - (11 * pi / 18), - (11 * pi / 18), 11 * pi / 18]) =
       flpJointPosSp_l ex_level \<and>
     length (flpJointPosSp_l ex_level) = 4 \<and> length (kmu_l ex_level) = 4"
    by (simp add: ex_level_def ex_ready_def ex_init_def init_node_def ex_tools_def spec_tools_def
        spec_correctFlippersJointSignal_def numeral_eq_Suc split: prod.splits)
  from h nullspace_at_target_is_orientation [where s = ex_level and ?v0.0 = "(0, 0, 3 / 10)" and vs = "[]"
      and position = "[0, 0, 0, 0, 11 * pi / 18, - (11 * pi / 18), - (11 * pi / 18), 11 * pi / 18]"
      and q_imu = "Quaternion 1 0 0 0" and T = ex_tools and t = 1 and p = "''a''"]
  show ?thesis by simp
qed

section \<open>The Articulation law at the set-point\<close>

lemma setpoint_origin:
  "convertSetPoints2DqFormat (spec_tools signs) (0, 0, 0) (0, 0, 0) =
     (Quaternion 1 0 0 0, DQ 1 0 0 0 0 0 0 0)"
  by (simp add: convertSetPoints2DqFormat_def spec_tools_def spec_rpy2quat_def quat_of_vec4_def
      spec_trAndOri2dq_def dq_mul_def dq_of_def dq_P_def dq_D_def qmul_def qadd_def Let_def)

lemma np_dot43_zero: "np_dot43 M (0, 0, 0) = (0, 0, 0, 0)"
  by (cases M) (auto simp: np_dot43_def dot3_def split: prod.splits)

lemma articulation_at_origin:
  assumes "x_sp_dq s = DQ 1 0 0 0 0 0 0 0" "ctrlType_curr s = 3"
  shows "ctrl_modes (spec_tools signs) s position x_o (DQ 1 0 0 0 0 0 0 0) =
     Inr ((0, 0, 0, 0), None, Some (DQ 1 0 0 0 0 0 0 0))"
proof -
  obtain k0 k1 k2 k3 k4 k5 k6 k7 where k: "kp_a_dq s = DQ k0 k1 k2 k3 k4 k5 k6 k7"
    by (cases "kp_a_dq s")
  show ?thesis using assms
    by (simp add: ctrl_modes_def k spec_tools_def spec_dqElementwiseMul_def spec_dq2trAndQuatArray_def
      spec_dqExtractTransV3_def dq_mul_def dq_conj_def dq_of_def dq_P_def dq_D_def qmul_def qadd_def
      qconj_def components_def np_dot43_zero Let_def)
qed

text \<open>
  C7. In Articulation mode, with the set-point built from translation [0,0,0] and the
  identity orientation (roll, pitch, yaw all 0) and the current articulation pose equal
  to the set-point pose, the command is the zero vector, whatever the gains. The helpers
  of rosi_common are the modelled ones.
\<close>

theorem articulation_zero_at_setpoint:
  "ctrlType_curr s = 3 \<and> active s \<and> msg_grndDist s = Some (v0 # vs) \<and>
   msg_jointState s = Some position \<and> msg_imu s = Some q_imu \<and>
   (x_sp_ori_q s, x_sp_dq s) = convertSetPoints2DqFormat (spec_tools signs) (0, 0, 0) (0, 0, 0) \<and>
   articulation_pose (spec_tools signs) v0 (deyaw (spec_tools signs) q_imu) = x_sp_dq s \<longrightarrow>
     commandOutputs (fst (nodeMain_iter (spec_tools signs) t p s)) = [[0, 0, 0, 0]]"
proof
  assume a: "ctrlType_curr s = 3 \<and> active s \<and> msg_grndDist s = Some (v0 # vs) \<and>
   msg_jointState s = Some position \<and> msg_imu s = Some q_imu \<and>
   (x_sp_ori_q s, x_sp_dq s) = convertSetPoints2DqFormat (spec_tools signs) (0, 0, 0) (0, 0, 0) \<and>
   articulation_pose (spec_tools signs) v0 (deyaw (spec_tools signs) q_imu) = x_sp_dq s"
  then have sp: "x_sp_dq s = DQ 1 0 0 0 0 0 0 0" by (simp add: setpoint_origin)
  with a have x: "articulation_pose (spec_tools signs) v0 (deyaw (spec_tools signs) q_imu) = DQ 1 0 0 0 0 0 0 0"
    by simp
  from a articulation_at_origin [OF sp, of signs position "deyaw (spec_tools signs) q_imu"]
  show "commandOutputs (fst (nodeMain_iter (spec_tools signs) t p s)) = [[0, 0, 0, 0]]"
    by (simp add: nodeMain_iter_def x vec4_list_def Let_def)
qed

theorem articulation_zero_at_setpoint_witness:
  "ctrlType_curr ex_art = 3 \<and> active ex_art \<and> msg_grndDist ex_art = Some [(5, 7, 0)] \<and>
   msg_jointState ex_art = Some [0, 0, 0, 0, 1, 2, 3, 4] \<and> msg_imu ex_art = Some (Quaternion 1 0 0 0) \<and>
   (x_sp_ori_q ex_art, x_sp_dq ex_art) =
     convertSetPoints2DqFormat (spec_tools [1, - 1, - 1, 1]) (0, 0, 0) (0, 0, 0) \<and>
   articulation_pose (spec_tools [1, - 1, - 1, 1]) (5, 7, 0)
     (deyaw (spec_tools [1, - 1, - 1, 1]) (Quaternion 1 0 0 0)) = x_sp_dq ex_art \<and>
   commandOutputs (fst (nodeMain_iter (spec_tools [1, - 1, - 1, 1]) 1 ''a'' ex_art)) = [[0, 0, 0, 0]]"
proof -
  have h: "ctrlType_curr ex_art = 3 \<and> active ex_art \<and> msg_grndDist ex_art = Some ((5, 7, 0) # []) \<and>
     msg_jointState ex_art = Some [0, 0, 0, 0, 1, 2, 3, 4] \<and> msg_imu ex_art = Some (Quaternion 1 0 0 0) \<and>
     (x_sp_ori_q ex_art, x_sp_dq ex_art) =
       convertSetPoints2DqFormat (spec_tools [1, - 1, - 1, 1]) (0, 0, 0) (0, 0, 0) \<and>
     articulation_pose (spec_tools [1, - 1, - 1, 1]) (5, 7, 0)
       (deyaw (spec_tools [1, - 1, - 1, 1]) (Quaternion 1 0 0 0)) = x_sp_dq ex_art"
    by (simp add: ex_art_def srvcllbck_setPoseSetPoint_def ex_eval split: prod.splits)
  from h articulation_zero_at_setpoint [where s = ex_art and ?v0.0 = "(5, 7, 0)" and vs = "[]"
      and position = "[0, 0, 0, 0, 1, 2, 3, 4]" and q_imu = "Quaternion 1 0 0 0"
      and signs = "[1, - 1, - 1, 1]" and t = 1 and p = "''a''"]
  show ?thesis by simp
qed

section \<open>The null-space projector\<close>

lemma dot_assoc:
  "np_dot44_44 (np_dot42_24 A X) (np_dot42_24 B Y) = np_dot42_24 (np_dot44_42 (np_dot42_24 A X) B) Y"
  by (cases A; cases X; cases B; cases Y)
    (simp add: np_dot44_44_def np_dot42_24_def np_dot44_42_def row_times44_def row_times24_def
      row_times42_def split: prod.splits, simp add: algebra_simps)


lemmas mat_defs = np_dot44_44_def np_dot42_24_def np_dot44_42_def row_times44_def row_times24_def
  row_times42_def mat44_sub_def vec4_sub_def eye4_def zero44_def

lemma complement_square:
  "np_dot44_44 (mat44_sub eye4 M) (mat44_sub eye4 M) =
     mat44_sub (mat44_sub eye4 M) (mat44_sub M (np_dot44_44 M M))"
  by (simp add: mat_defs split: prod.splits, simp add: algebra_simps)

lemma times_complement:
  "np_dot44_44 M (mat44_sub eye4 M) = mat44_sub M (np_dot44_44 M M)"
  by (simp add: mat_defs split: prod.splits, simp add: algebra_simps)

lemma mat44_sub_self: "mat44_sub M M = zero44"
  by (simp add: mat_defs split: prod.splits)

lemma mat44_sub_zero: "mat44_sub M zero44 = M"
  by (simp add: mat_defs split: prod.splits)

lemma init_nsproj: "J_ori_nsproj (init_node T side act Jd J Jart) = nsproj Jd J"
  by (simp add: init_node_def split: prod.splits)

lemma projector_facts:
  assumes "is_pinv Jd J"
  shows "np_dot44_44 (nsproj Jd J) (nsproj Jd J) = nsproj Jd J"
    and "np_dot44_44 (np_dot42_24 Jd J) (nsproj Jd J) = zero44"
proof -
  let ?M = "np_dot42_24 Jd J"
  from assms have "np_dot44_42 ?M Jd = Jd" by (simp add: is_pinv_def)
  with dot_assoc [of Jd J Jd J] have idem: "np_dot44_44 ?M ?M = ?M" by simp
  show "np_dot44_44 (nsproj Jd J) (nsproj Jd J) = nsproj Jd J"
    by (simp add: nsproj_def complement_square idem mat44_sub_self mat44_sub_zero)
  show "np_dot44_44 ?M (nsproj Jd J) = zero44"
    by (simp add: nsproj_def times_complement idem mat44_sub_self)
qed

text \<open>
  C6. For any orientation Jacobian \<open>J_ori_dagger\<close> with \<open>J_ori\<close> its Moore-Penrose
  pseudo-inverse, the projector \<open>P = I - J_ori_dagger J_ori\<close> that the constructor
  stores satisfies \<open>P P = P\<close> and \<open>J_ori_dagger J_ori P = 0\<close>. In exact arithmetic the
  two equations hold without a tolerance.
\<close>

theorem nsproj_idempotent_orthogonal:
  "is_pinv Jd J \<longrightarrow>
     np_dot44_44 (J_ori_nsproj (init_node T side act Jd J Jart))
                 (J_ori_nsproj (init_node T side act Jd J Jart)) =
       J_ori_nsproj (init_node T side act Jd J Jart) \<and>
     np_dot44_44 (np_dot42_24 Jd J) (J_ori_nsproj (init_node T side act Jd J Jart)) = zero44"
  using projector_facts [of Jd J] by (simp add: init_nsproj)

theorem nsproj_idempotent_orthogonal_witness:
  "is_pinv ex_Jd ex_J \<and>
   np_dot44_44 (J_ori_nsproj ex_init) (J_ori_nsproj ex_init) = J_ori_nsproj ex_init \<and>
   np_dot44_44 (np_dot42_24 ex_Jd ex_J) (J_ori_nsproj ex_init) = zero44"
proof -
  have h: "is_pinv ex_Jd ex_J"
    by (simp add: is_pinv_def ex_Jd_def ex_J_def mat_defs np_dot24_42_def np_dot22_24_def
        transpose22_def transpose44_def)
  from h nsproj_idempotent_orthogonal [of ex_Jd ex_J ex_tools "''a''" True ex_Jart]
  show ?thesis by (simp add: ex_init_def)
qed

section \<open>Set-point round trip\<close>

lemma atan2_polar:
  assumes k: "0 < k" and r: "- pi < r" "r \<le> pi"
  shows "atan2 (sin r * k) (cos r * k) = r"
proof -
  have q: "sin r * k / (cos r * k) = tan r" using k by (simp add: tan_def)
  consider "- (pi / 2) < r \<and> r < pi / 2" | "r = pi / 2" | "r = - (pi / 2)"
    | "pi / 2 < r" | "r < - (pi / 2)" by linarith
  then show ?thesis
  proof cases
    case 1
    then have "0 < cos r" by (simp add: cos_gt_zero_pi)
    with k have "0 < cos r * k" by simp
    with 1 show ?thesis by (simp add: atan2_def q arctan_tan)
  next
    case 2
    have "atan2 (sin (pi / 2) * k) (cos (pi / 2) * k) = pi / 2"
      using k by (simp add: atan2_def)
    then show ?thesis unfolding 2 .
  next
    case 3
    have "atan2 (sin (- (pi / 2)) * k) (cos (- (pi / 2)) * k) = - (pi / 2)"
      using k by (simp add: atan2_def)
    then show ?thesis unfolding 3 .
  next
    case 4
    let ?u = "r - pi"
    from 4 r have u: "- (pi / 2) < ?u" "?u \<le> 0" by simp_all
    then have "0 < cos ?u" by (intro cos_gt_zero_pi) simp_all
    then have c: "cos r < 0" by (simp add: cos_diff)
    from u have "sin ?u \<le> 0" using sin_ge_zero [of "- ?u"] by simp
    then have s: "0 \<le> sin r" by (simp add: sin_diff)
    have "tan r = tan ?u" by (simp add: tan_def sin_diff cos_diff)
    moreover have "arctan (tan ?u) = ?u" using u by (intro arctan_tan) simp_all
    ultimately have "arctan (tan r) = r - pi" by simp
    moreover from c k have "cos r * k < 0" by (simp add: mult_neg_pos)
    moreover from s k have "0 \<le> sin r * k" by simp
    ultimately show ?thesis by (simp add: atan2_def q)
  next
    case 5
    let ?u = "r + pi"
    from 5 r have u: "0 < ?u" "?u < pi / 2" by simp_all
    then have "0 < cos ?u" by (intro cos_gt_zero_pi) simp_all
    then have c: "cos r < 0" by (simp add: cos_add)
    from u have "0 < sin ?u" by (intro sin_gt_zero) simp_all
    then have s: "sin r < 0" by (simp add: sin_add)
    have "tan r = tan ?u" by (simp add: tan_def sin_add cos_add)
    moreover have "arctan (tan ?u) = ?u" using u by (intro arctan_tan) simp_all
    ultimately have "arctan (tan r) = r + pi" by simp
    moreover from c k have "cos r * k < 0" by (simp add: mult_neg_pos)
    moreover from s k have "sin r * k < 0" by (simp add: mult_neg_pos)
    ultimately show ?thesis by (simp add: atan2_def q)
  qed
qed


lemma quat_poly:
  fixes sa ca sb cb sc cc :: real
  assumes "sa * sa + ca * ca = 1" "sb * sb + cb * cb = 1" "sc * sc + cc * cc = 1"
  defines "w \<equiv> ca * cb * cc + sa * sb * sc" and "x \<equiv> sa * cb * cc - ca * sb * sc"
    and "y \<equiv> ca * sb * cc + sa * cb * sc" and "z \<equiv> ca * cb * sc - sa * sb * cc"
  shows "2 * (w * x + y * z) = (2 * sa * ca) * (cb * cb - sb * sb)"
    and "1 - 2 * (x * x + y * y) = (ca * ca - sa * sa) * (cb * cb - sb * sb)"
    and "2 * (w * y - z * x) = 2 * sb * cb"
    and "2 * (w * z + x * y) = (2 * sc * cc) * (cb * cb - sb * sb)"
    and "1 - 2 * (y * y + z * z) = (cc * cc - sc * sc) * (cb * cb - sb * sb)"
    and "w * w + x * x + y * y + z * z = 1"
  using assms(1-3) unfolding w_def x_def y_def z_def by algebra+


lemma rpy2quat_terms:
  fixes r p y :: real
  defines "q \<equiv> quat_of_vec4 (spec_rpy2quat (r, p, y))"
  shows "2 * (qw q * qx q + qy q * qz q) = sin r * cos p"
    and "1 - 2 * (qx q * qx q + qy q * qy q) = cos r * cos p"
    and "2 * (qw q * qy q - qz q * qx q) = sin p"
    and "2 * (qw q * qz q + qx q * qy q) = sin y * cos p"
    and "1 - 2 * (qy q * qy q + qz q * qz q) = cos y * cos p"
    and "qw q * qw q + qx q * qx q + qy q * qy q + qz q * qz q = 1"
proof -
  have d: "sin t = 2 * sin (t / 2) * cos (t / 2)"
    "cos t = cos (t / 2) * cos (t / 2) - sin (t / 2) * sin (t / 2)" for t :: real
    using sin_double [of "t / 2"] cos_double [of "t / 2"] by (simp_all add: power2_eq_square)
  have u: "sin t * sin t + cos t * cos t = 1" for t :: real
    using sin_cos_squared_add [of t] by (simp add: power2_eq_square)
  note P = quat_poly [OF u [of "r / 2"] u [of "p / 2"] u [of "y / 2"]]
  show "2 * (qw q * qx q + qy q * qz q) = sin r * cos p"
    using P(1) by (simp add: q_def spec_rpy2quat_def quat_of_vec4_def d [of r] d [of p])
  show "1 - 2 * (qx q * qx q + qy q * qy q) = cos r * cos p"
    using P(2) by (simp add: q_def spec_rpy2quat_def quat_of_vec4_def d [of r] d [of p])
  show "2 * (qw q * qy q - qz q * qx q) = sin p"
    using P(3) by (simp add: q_def spec_rpy2quat_def quat_of_vec4_def d [of p])
  show "2 * (qw q * qz q + qx q * qy q) = sin y * cos p"
    using P(4) by (simp add: q_def spec_rpy2quat_def quat_of_vec4_def d [of y] d [of p])
  show "1 - 2 * (qy q * qy q + qz q * qz q) = cos y * cos p"
    using P(5) by (simp add: q_def spec_rpy2quat_def quat_of_vec4_def d [of y] d [of p])
  show "qw q * qw q + qx q * qx q + qy q * qy q + qz q * qz q = 1"
    using P(6) by (simp add: q_def spec_rpy2quat_def quat_of_vec4_def)
qed

lemma rpy_roundtrip:
  assumes "- pi < r" "r \<le> pi" "- (pi / 2) < p" "p < pi / 2" "- pi < y" "y \<le> pi"
  shows "spec_quat2rpy (quat_of_vec4 (spec_rpy2quat (r, p, y))) = (r, p, y)"
proof -
  from assms(3,4) have c: "0 < cos p" by (simp add: cos_gt_zero_pi)
  from assms(3,4) have "arcsin (sin p) = p" by (intro arcsin_sin) simp_all
  with atan2_polar [OF c assms(1,2)] atan2_polar [OF c assms(5,6)]
  show ?thesis unfolding spec_quat2rpy_def rpy2quat_terms by simp
qed

lemma translation_roundtrip:
  assumes "qw q * qw q + qx q * qx q + qy q * qy q + qz q * qz q = 1"
  shows "spec_dqExtractTransV3 (spec_trAndOri2dq tr q ''trfirst'') = tr"
    and "dq_P (spec_trAndOri2dq tr q ''trfirst'') = q"
proof -
  obtain t1 t2 t3 where t: "tr = (t1, t2, t3)" by (cases tr)
  obtain w x y z where q: "q = Quaternion w x y z" by (cases q)
  from assms have n: "w * w + x * x + y * y + z * z = 1" by (simp add: q)
  have "t1 * (w * w + x * x + y * y + z * z) = t1" "t2 * (w * w + x * x + y * y + z * z) = t2"
    "t3 * (w * w + x * x + y * y + z * z) = t3" by (simp_all add: n)
  then show "spec_dqExtractTransV3 (spec_trAndOri2dq tr q ''trfirst'') = tr"
    by (simp add: t q spec_dqExtractTransV3_def spec_trAndOri2dq_def dq_mul_def dq_of_def dq_P_def
        dq_D_def qmul_def qadd_def qconj_def Let_def algebra_simps)
  show "dq_P (spec_trAndOri2dq tr q ''trfirst'') = q"
    by (simp add: t q spec_trAndOri2dq_def dq_mul_def dq_of_def dq_P_def dq_D_def qmul_def qadd_def Let_def)
qed

text \<open>
  C8, as stated for any vectors away from gimbal lock, fails: a yaw of two full turns
  (pitch 0) gives the quaternion of the identity, and get-pose-set-point answers yaw 0.
  The helpers of rosi_common are the modelled ones.
\<close>

theorem get_after_set_pose_two_turns_counterexample:
  "(0::real) \<noteq> pi / 2 \<and> (0::real) \<noteq> - (pi / 2) \<and>
   snd (srvcllbck_getPoseSetPoint ex_tools
     (fst (srvcllbck_setPoseSetPoint ex_tools ex_ready (1 / 10, 0, 3 / 10) (0, 0, 4 * pi)))) = (0, 0, 0) \<and>
   (0, 0, 4 * pi) \<noteq> (0, 0, 0::real)"
  by (simp add: srvcllbck_getPoseSetPoint_def srvcllbck_setPoseSetPoint_def
        convertSetPoints2DqFormat_def ex_tools_def spec_tools_def spec_dq2rpy_def spec_quat2rpy_def
        spec_rpy2quat_def quat_of_vec4_def spec_trAndOri2dq_def dq_mul_def dq_of_def dq_P_def dq_D_def
        qmul_def qadd_def atan2_def Let_def)

text \<open>
  C8, amended. For any translation and any orientation with roll and yaw in
  \<open>(-\<pi>, \<pi>]\<close> and pitch strictly between -90 and 90 degrees, set-pose-set-point
  followed by get-pose-set-point returns the same translation and the same
  roll-pitch-yaw vector; translation [0.1,0,0.3] with RPY [0,0.2,0] is such a case.
  The helpers of rosi_common are the modelled ones; in exact arithmetic the vectors are
  equal.
\<close>

theorem get_after_set_pose:
  "- pi < r \<and> r \<le> pi \<and> - (pi / 2) < p \<and> p < pi / 2 \<and> - pi < y \<and> y \<le> pi \<longrightarrow>
     srvcllbck_getPoseSetPoint (spec_tools signs)
       (fst (srvcllbck_setPoseSetPoint (spec_tools signs) s tr (r, p, y))) = (tr, (r, p, y))"
proof
  assume a: "- pi < r \<and> r \<le> pi \<and> - (pi / 2) < p \<and> p < pi / 2 \<and> - pi < y \<and> y \<le> pi"
  let ?q = "quat_of_vec4 (spec_rpy2quat (r, p, y))"
  have n: "qw ?q * qw ?q + qx ?q * qx ?q + qy ?q * qy ?q + qz ?q * qz ?q = 1"
    by (rule rpy2quat_terms(6))
  from a have "spec_quat2rpy ?q = (r, p, y)" by (intro rpy_roundtrip) simp_all
  then show "srvcllbck_getPoseSetPoint (spec_tools signs)
       (fst (srvcllbck_setPoseSetPoint (spec_tools signs) s tr (r, p, y))) = (tr, (r, p, y))"
    by (simp add: srvcllbck_getPoseSetPoint_def srvcllbck_setPoseSetPoint_def
        convertSetPoints2DqFormat_def spec_tools_def spec_dq2rpy_def Let_def
        translation_roundtrip [OF n])
qed


theorem get_after_set_pose_witness:
  "- pi < 0 \<and> (0::real) \<le> pi \<and> - (pi / 2) < 2 / 10 \<and> 2 / 10 < pi / 2 \<and>
   srvcllbck_getPoseSetPoint ex_tools
     (fst (srvcllbck_setPoseSetPoint ex_tools ex_ready (1 / 10, 0, 3 / 10) (0, 2 / 10, 0))) =
     ((1 / 10, 0, 3 / 10), (0, 2 / 10, 0))"
proof -
  have h: "- pi < 0 \<and> (0::real) \<le> pi \<and> - (pi / 2) < 2 / 10 \<and> 2 / 10 < pi / 2"
    using pi_ge_two by simp
  from h get_after_set_pose [where r = 0 and p = "2 / 10" and y = 0 and signs = "[1, - 1, - 1, 1]"
      and s = ex_ready and tr = "(1 / 10, 0, 3 / 10)"]
  show ?thesis by (simp add: ex_tools_def)
qed

end
